theory Spec2Isabelle
  imports Complex_Main
begin

section \<open>The locale middleware of nexcn (\<^verbatim>\<open>middleware.ts\<close>)\<close>

subsection \<open>Data model\<close>

text \<open>
  The request URL (\<^verbatim>\<open>request.nextUrl\<close>) is an object with separate components; the
  middleware reads and assigns \<^verbatim>\<open>pathname\<close> only. Assignment to a component is a
  record update; what the framework's URL class does when the URL is later written
  out as a string is not part of \<^verbatim>\<open>middleware.ts\<close>.
\<close>

record NextURL =
  protocol :: string
  host :: string
  pathname :: string
  search :: string
  hash :: string

text \<open>
  A request carries its URL and its headers. \<^verbatim>\<open>request.headers.get(name)\<close> returns
  the header's value, or \<^verbatim>\<open>null\<close> when the header is absent: a lookup in a map.
\<close>

record NextRequest =
  nextUrl :: NextURL
  headers :: "string \<rightharpoonup> string"

text \<open>An exception thrown by a library call, by its name.\<close>

datatype error = Exception string

text \<open>
  \<^verbatim>\<open>middleware\<close> either returns nothing (the request goes on unchanged) or
  \<^verbatim>\<open>NextResponse.redirect(url)\<close>.
\<close>

datatype outcome = PassThrough | RedirectTo NextURL

text \<open>
  The JavaScript values that \<^verbatim>\<open>getLocale\<close> builds and hands to the library: strings,
  object literals (keys with their values, in the order written) and
  \<^verbatim>\<open>undefined\<close>.
\<close>

datatype jsvalue = JSUndefined | JSString string | JSObject "(string \<times> jsvalue) list"

text \<open>
  Reading a member, \<^verbatim>\<open>v[k]\<close>: the value under the key, \<^verbatim>\<open>undefined\<close> when the
  object has no such key, and a TypeError when \<open>v\<close> itself is \<^verbatim>\<open>undefined\<close>. A string
  has none of the keys that are read here (\<^verbatim>\<open>headers\<close>, \<^verbatim>\<open>accept-language\<close>).
\<close>

fun member :: "jsvalue \<Rightarrow> string \<Rightarrow> error + jsvalue" where
  "member JSUndefined k = Inl (Exception ''TypeError'')"
| "member (JSString s) k = Inr JSUndefined"
| "member (JSObject kvs) k = Inr (case map_of kvs k of None \<Rightarrow> JSUndefined | Some v \<Rightarrow> v)"

text \<open>
  The two imports of \<^verbatim>\<open>middleware.ts\<close> that do the negotiation:
  \<^verbatim>\<open>new Negotiator(object).languages()\<close> and
  \<^verbatim>\<open>match(languages, locales, defaultLocale)\<close>. They are packages outside the
  repository, so the middleware is modelled over any pair of such functions. The
  first takes the object that the source builds for the constructor. The source hands
  the value of the first to the second untouched, so its type is a parameter. Either
  call may throw.
\<close>

record 'p negotiation =
  languages :: "jsvalue \<Rightarrow> error + 'p"
  match :: "'p \<Rightarrow> string list \<Rightarrow> string \<Rightarrow> error + string"

subsection \<open>The module constants\<close>

definition locales :: "string list" where
  "locales = [''en'', ''ar'']"

definition defaultLocale :: string where
  "defaultLocale = ''en''"

subsection \<open>\<^verbatim>\<open>getLocale\<close>\<close>

text \<open>
  \<^verbatim>\<open>request.headers.get("accept-language") || defaultLocale\<close>: JavaScript's
  \<^verbatim>\<open>||\<close> takes the right operand when the left one is \<^verbatim>\<open>null\<close> or the empty
  string.
\<close>

definition acceptLanguage :: "NextRequest \<Rightarrow> string" where
  "acceptLanguage request =
     (case headers request ''accept-language'' of
        None \<Rightarrow> defaultLocale
      | Some h \<Rightarrow> if h = [] then defaultLocale else h)"

text \<open>
  The object literal \<^verbatim>\<open>{ "accept-language": acceptLanguage }\<close> is what the
  constructor is given: its one key is \<^verbatim>\<open>accept-language\<close>, and it has no key
  \<^verbatim>\<open>headers\<close>. There is no handler around the two calls: what they throw,
  \<^verbatim>\<open>getLocale\<close> throws.
\<close>

definition getLocale :: "'p negotiation \<Rightarrow> NextRequest \<Rightarrow> error + string" where
  "getLocale lib request =
     (case languages lib (JSObject [(''accept-language'', JSString (acceptLanguage request))]) of
        Inl e \<Rightarrow> Inl e
      | Inr langs \<Rightarrow> match lib langs locales defaultLocale)"

subsection \<open>\<^verbatim>\<open>middleware\<close>\<close>

text \<open>\<^verbatim>\<open>s.startsWith(p)\<close>\<close>

definition startsWith :: "string \<Rightarrow> string \<Rightarrow> bool" where
  "startsWith s p = (take (length p) s = p)"

text \<open>
  \<^verbatim>\<open>locales.some((locale) => pathname.startsWith(`/${locale}/`) || pathname === `/${locale}`)\<close>
\<close>

definition pathnameHasLocale :: "string \<Rightarrow> bool" where
  "pathnameHasLocale p =
     list_ex (\<lambda>locale. startsWith p (''/'' @ locale @ ''/'') \<or> p = ''/'' @ locale) locales"

definition middleware :: "'p negotiation \<Rightarrow> NextRequest \<Rightarrow> error + outcome" where
  "middleware lib request =
     (let p = pathname (nextUrl request) in
      if pathnameHasLocale p then Inr PassThrough
      else
        (case getLocale lib request of
           Inl e \<Rightarrow> Inl e
         | Inr locale \<Rightarrow>
             Inr (RedirectTo ((nextUrl request)\<lparr>pathname := ''/'' @ locale @ p\<rparr>))))"

text \<open>
  The path of an outcome: none without a redirect, and otherwise the pathname of the
  URL that \<^verbatim>\<open>NextResponse.redirect\<close> is given.
\<close>

fun targetPath :: "outcome \<Rightarrow> string option" where
  "targetPath PassThrough = None"
| "targetPath (RedirectTo u) = Some (pathname u)"

section \<open>The packages as the source calls them\<close>

text \<open>
  Modelled from the spec: the negotiation capability (missing: the packages
  \<^verbatim>\<open>negotiator\<close> and \<^verbatim>\<open>@formatjs/intl-localematcher\<close>), with the specification's
  \<^verbatim>\<open>parse(headerString)\<close> and \<^verbatim>\<open>match(preferences, supportedTags, defaultTag)\<close> as
  the parameters \<open>ps\<close> and \<open>mt\<close>. Where the header string is taken from is the
  interface of \<^verbatim>\<open>negotiator\<close>: its constructor keeps the request object it is given,
  and \<^verbatim>\<open>languages()\<close> reads \<^verbatim>\<open>request.headers['accept-language']\<close> of that object,
  so first the member \<^verbatim>\<open>headers\<close> and then, of its value, the member
  \<^verbatim>\<open>accept-language\<close>.
\<close>

definition negotiator ::
  "(jsvalue \<Rightarrow> error + 'p) \<Rightarrow> ('p \<Rightarrow> string list \<Rightarrow> string \<Rightarrow> error + string) \<Rightarrow> 'p negotiation"
where
  "negotiator ps mt =
     \<lparr>languages = (\<lambda>request.
        case member request ''headers'' of
          Inl e \<Rightarrow> Inl e
        | Inr hs \<Rightarrow> (case member hs ''accept-language'' of Inl e \<Rightarrow> Inl e | Inr h \<Rightarrow> ps h)),
      match = mt\<rparr>"

text \<open>
  A parser and a matcher to close \<open>negotiator\<close> with: the header value itself as the
  preferences, and the default as the match. On the object that \<^verbatim>\<open>getLocale\<close> builds
  neither is reached.
\<close>

definition negotiatorClosed :: "jsvalue negotiation" where
  "negotiatorClosed = negotiator Inr (\<lambda>langs supported dflt. Inr dflt)"

text \<open>
  A negotiation that answers the default locale to whatever object it is given. It
  stands for no package; with it the redirect branch of \<^verbatim>\<open>middleware\<close> is reached.
\<close>

definition defaultNegotiation :: "jsvalue negotiation" where
  "defaultNegotiation =
     \<lparr>languages = Inr, match = (\<lambda>langs supported dflt. Inr dflt)\<rparr>"

text \<open>A request for a path on \<^verbatim>\<open>https://example.com\<close>, with or without the header.\<close>

definition requestFor :: "string \<Rightarrow> string option \<Rightarrow> NextRequest" where
  "requestFor p h =
     \<lparr>nextUrl = \<lparr>protocol = ''https:'', host = ''example.com'', pathname = p,
                 search = ''?ref=home'', hash = ''#top''\<rparr>,
      headers = (case h of None \<Rightarrow> Map.empty | Some v \<Rightarrow> [''accept-language'' \<mapsto> v])\<rparr>"

section \<open>Properties of the source\<close>

lemma pathnameHasLocale_iff:
  "pathnameHasLocale p \<longleftrightarrow>
     (startsWith p ''/en/'' \<or> p = ''/en'' \<or> startsWith p ''/ar/'' \<or> p = ''/ar'')"
  by (auto simp: pathnameHasLocale_def locales_def)

lemma middleware_no_locale:
  "\<not> pathnameHasLocale (pathname (nextUrl request)) \<Longrightarrow>
   middleware lib request =
     (case getLocale lib request of
        Inl e \<Rightarrow> Inl e
      | Inr locale \<Rightarrow>
          Inr (RedirectTo ((nextUrl request)
                 \<lparr>pathname := ''/'' @ locale @ pathname (nextUrl request)\<rparr>)))"
  by (simp add: middleware_def)

lemma acceptLanguage_absent:
  "headers request ''accept-language'' = None \<Longrightarrow> acceptLanguage request = ''en''"
  by (simp add: acceptLanguage_def defaultLocale_def)

lemma acceptLanguage_empty:
  "headers request ''accept-language'' = Some [] \<Longrightarrow> acceptLanguage request = ''en''"
  by (simp add: acceptLanguage_def defaultLocale_def)

lemma acceptLanguage_present:
  "headers request ''accept-language'' = Some h \<Longrightarrow> h \<noteq> [] \<Longrightarrow> acceptLanguage request = h"
  by (simp add: acceptLanguage_def)

lemma getLocale_header_only:
  "headers r1 ''accept-language'' = headers r2 ''accept-language'' \<Longrightarrow>
   getLocale lib r1 = getLocale lib r2"
  by (simp add: getLocale_def acceptLanguage_def)

lemma getLocale_throws:
  "languages lib (JSObject [(''accept-language'', JSString (acceptLanguage request))]) = Inl e \<Longrightarrow>
   getLocale lib request = Inl e"
  by (simp add: getLocale_def)

lemma pathname_requestFor: "pathname (nextUrl (requestFor p h)) = p"
  by (simp add: requestFor_def)

lemma header_requestFor: "headers (requestFor p h) ''accept-language'' = h"
  by (cases h) (simp_all add: requestFor_def)

section \<open>What the call of the package does\<close>

text \<open>
  The object of \<^verbatim>\<open>getLocale\<close> has no member \<^verbatim>\<open>headers\<close>, so the second read is a
  read of \<^verbatim>\<open>undefined\<close>: whatever the header, the parser and the matcher.
\<close>

lemma languages_negotiator_throws:
  "languages (negotiator ps mt) (JSObject [(''accept-language'', JSString h)])
   = Inl (Exception ''TypeError'')"
  by (simp add: negotiator_def)

lemma getLocale_negotiator:
  "getLocale (negotiator ps mt) request = Inl (Exception ''TypeError'')"
  by (rule getLocale_throws) (rule languages_negotiator_throws)

lemma middleware_negotiator:
  "middleware (negotiator ps mt) request =
     (if pathnameHasLocale (pathname (nextUrl request)) then Inr PassThrough
      else Inl (Exception ''TypeError''))"
  by (simp add: middleware_def getLocale_negotiator)

lemma not_prefixed:
  "\<not> pathnameHasLocale ''/products''" "\<not> pathnameHasLocale ''/''"
  "\<not> pathnameHasLocale ''/about''" "\<not> pathnameHasLocale ''/fr/about''"
  by (simp_all add: pathnameHasLocale_iff startsWith_def)

lemma middleware_default_about:
  "middleware defaultNegotiation (requestFor ''/about'' (Some ''ar;q=0.9,en;q=0.5''))
   = Inr (RedirectTo \<lparr>protocol = ''https:'', host = ''example.com'', pathname = ''/en/about'',
                       search = ''?ref=home'', hash = ''#top''\<rparr>)"
proof -
  have "getLocale defaultNegotiation (requestFor ''/about'' (Some ''ar;q=0.9,en;q=0.5'')) = Inr ''en''"
    by (simp add: getLocale_def defaultNegotiation_def defaultLocale_def)
  then have "middleware defaultNegotiation (requestFor ''/about'' (Some ''ar;q=0.9,en;q=0.5''))
     = Inr (RedirectTo ((nextUrl (requestFor ''/about'' (Some ''ar;q=0.9,en;q=0.5'')))
              \<lparr>pathname := ''/en/about''\<rparr>))"
    using middleware_no_locale [of "requestFor ''/about'' (Some ''ar;q=0.9,en;q=0.5'')"
        defaultNegotiation] not_prefixed(3)
    by (simp add: pathname_requestFor)
  then show ?thesis
    by (simp add: requestFor_def)
qed

section \<open>The claims\<close>

subsection \<open>Paths that carry a locale\<close>

text \<open>
  C1. For every request path that starts with \<^verbatim>\<open>/<locale>/\<close> or equals
  \<^verbatim>\<open>/<locale>\<close> for a locale of the supported set \<open>{en, ar}\<close>, \<^verbatim>\<open>middleware\<close>
  returns pass-through and no redirect, for every content \<open>hs\<close> of the headers and
  whatever the negotiation packages would make of them: \<^verbatim>\<open>getLocale\<close> is not reached.
\<close>

theorem middleware_pass_through:
  assumes "locale \<in> {''en'', ''ar''}"
    and "pathname (nextUrl request) = ''/'' @ locale @ ''/'' @ rest
         \<or> pathname (nextUrl request) = ''/'' @ locale"
  shows "middleware lib (request\<lparr>headers := hs\<rparr>) = Inr PassThrough"
proof -
  have "pathnameHasLocale (pathname (nextUrl request))"
    using assms by (auto simp: pathnameHasLocale_iff startsWith_def)
  then show ?thesis
    by (simp add: middleware_def)
qed

theorem middleware_pass_through_witness:
  "''en'' \<in> {''en'', ''ar''}
   \<and> pathname (nextUrl (requestFor ''/en/about'' None)) = ''/'' @ ''en'' @ ''/'' @ ''about''
   \<and> middleware negotiatorClosed
        ((requestFor ''/en/about'' None)\<lparr>headers := [''accept-language'' \<mapsto> ''ar'']\<rparr>)
      = Inr PassThrough"
  using middleware_pass_through [of "''en''" "requestFor ''/en/about'' None" "''about''"
      negotiatorClosed "[''accept-language'' \<mapsto> ''ar'']"]
  by (simp add: requestFor_def)

subsection \<open>Paths that carry no locale\<close>

text \<open>
  C2 asks for a redirect to the path with a supported locale in front of it, for every
  path without a locale. The request for \<^verbatim>\<open>/products\<close> gets none, with any header
  \<open>h\<close> or without one: \<^verbatim>\<open>getLocale\<close> gives the constructor an object without the member
  \<^verbatim>\<open>headers\<close>, the read of the header throws, and \<^verbatim>\<open>middleware\<close> throws with it.
\<close>

theorem middleware_products_throws:
  "middleware (negotiator ps mt) (requestFor ''/products'' h) = Inl (Exception ''TypeError'')"
  by (simp add: middleware_negotiator pathname_requestFor not_prefixed)

text \<open>
  C3 asks for the redirect to \<^verbatim>\<open>/en\<close> when the path is \<^verbatim>\<open>/\<close> and the header is
  missing. No redirect is returned there: the call throws.
\<close>

theorem middleware_root_throws:
  "middleware (negotiator ps mt) (requestFor ''/'' None) = Inl (Exception ''TypeError'')"
  by (simp add: middleware_negotiator pathname_requestFor not_prefixed)

text \<open>
  C7 asks for the redirect to \<^verbatim>\<open>/en/fr/about\<close> when the path is \<^verbatim>\<open>/fr/about\<close> and
  the header is \<^verbatim>\<open>fr\<close>. The path does take the branch for paths without a locale;
  there the call throws and no redirect is returned.
\<close>

theorem middleware_fr_throws:
  "\<not> pathnameHasLocale (pathname (nextUrl (requestFor ''/fr/about'' (Some ''fr''))))
   \<and> middleware (negotiator ps mt) (requestFor ''/fr/about'' (Some ''fr''))
     = Inl (Exception ''TypeError'')"
  by (simp add: middleware_negotiator pathname_requestFor not_prefixed)

subsection \<open>The locale of a request\<close>

text \<open>
  C4 asks that \<^verbatim>\<open>getLocale\<close> never raises and returns \<^verbatim>\<open>en\<close> for an absent, an
  empty and an unparseable header. It raises for each of the three.
\<close>

theorem getLocale_raises:
  "getLocale (negotiator ps mt) (requestFor p None) = Inl (Exception ''TypeError'')
   \<and> getLocale (negotiator ps mt) (requestFor p (Some [])) = Inl (Exception ''TypeError'')
   \<and> getLocale (negotiator ps mt) (requestFor p (Some ''!!!'')) = Inl (Exception ''TypeError'')"
  by (simp add: getLocale_negotiator)

text \<open>
  C5 asks for the supported locale of the highest weight, and for the redirect to
  \<^verbatim>\<open>/ar/about\<close> when the path is \<^verbatim>\<open>/about\<close> and the header is
  \<^verbatim>\<open>ar;q=0.9,en;q=0.5\<close>. For this header \<^verbatim>\<open>getLocale\<close> returns no locale, and
  \<^verbatim>\<open>middleware\<close> no redirect.
\<close>

theorem getLocale_weighted_throws:
  "getLocale (negotiator ps mt) (requestFor ''/about'' (Some ''ar;q=0.9,en;q=0.5''))
     = Inl (Exception ''TypeError'')
   \<and> middleware (negotiator ps mt) (requestFor ''/about'' (Some ''ar;q=0.9,en;q=0.5''))
     = Inl (Exception ''TypeError'')"
  by (simp add: getLocale_negotiator middleware_negotiator pathname_requestFor not_prefixed)

text \<open>
  C6 asks for \<^verbatim>\<open>en\<close> when \<^verbatim>\<open>en\<close> and \<^verbatim>\<open>ar\<close> are preferred with equal weight.
  For the header \<^verbatim>\<open>ar,en\<close> \<^verbatim>\<open>getLocale\<close> returns no locale.
\<close>

theorem getLocale_tie_throws:
  "getLocale (negotiator ps mt) (requestFor p (Some ''ar,en'')) = Inl (Exception ''TypeError'')"
  by (simp add: getLocale_negotiator)

text \<open>
  C9 says that for an absent header \<^verbatim>\<open>getLocale\<close> takes the default locale code as
  the header string, and therefore resolves to \<^verbatim>\<open>en\<close>. The first holds over any
  negotiation: what \<^verbatim>\<open>getLocale\<close> returns is what the negotiation makes of the object
  \<^verbatim>\<open>{ "accept-language": "en" }\<close>. The second does not: the package throws on that
  object.
\<close>

theorem getLocale_absent_header:
  "getLocale lib (requestFor p None)
     = (case languages lib (JSObject [(''accept-language'', JSString ''en'')]) of
          Inl e \<Rightarrow> Inl e
        | Inr langs \<Rightarrow> match lib langs [''en'', ''ar''] ''en'')
   \<and> getLocale (negotiator ps mt) (requestFor p None) = Inl (Exception ''TypeError'')"
  by (simp add: getLocale_negotiator)
    (simp add: getLocale_def acceptLanguage_def header_requestFor locales_def defaultLocale_def
      cong: sum.case_cong)

subsection \<open>Independence of anything but the request\<close>

text \<open>
  C8. \<^verbatim>\<open>middleware\<close> is a function of the request's path and accept-language header:
  two requests that agree on both get the same decision and the same target path (or
  the same exception of the negotiation), and the same outcome altogether when their
  URLs agree. No session or stored state is an argument of it.
\<close>

theorem middleware_deterministic:
  assumes "pathname (nextUrl r1) = pathname (nextUrl r2)"
    and "headers r1 ''accept-language'' = headers r2 ''accept-language''"
  shows "map_sum id targetPath (middleware lib r1) = map_sum id targetPath (middleware lib r2)
         \<and> (nextUrl r1 = nextUrl r2 \<longrightarrow> middleware lib r1 = middleware lib r2)"
  using assms getLocale_header_only [OF assms(2), of lib]
  by (auto simp: middleware_def Let_def split: sum.splits)

theorem middleware_deterministic_witness:
  "pathname (nextUrl (requestFor ''/about'' (Some ''ar'')))
     = pathname (nextUrl ((requestFor ''/about'' (Some ''ar''))
         \<lparr>headers := (headers (requestFor ''/about'' (Some ''ar'')))(''cookie'' \<mapsto> ''session=1'')\<rparr>))
   \<and> middleware negotiatorClosed (requestFor ''/about'' (Some ''ar''))
     = middleware negotiatorClosed ((requestFor ''/about'' (Some ''ar''))
         \<lparr>headers := (headers (requestFor ''/about'' (Some ''ar'')))(''cookie'' \<mapsto> ''session=1'')\<rparr>)"
  using middleware_deterministic [of "requestFor ''/about'' (Some ''ar'')"
      "(requestFor ''/about'' (Some ''ar''))
         \<lparr>headers := (headers (requestFor ''/about'' (Some ''ar'')))(''cookie'' \<mapsto> ''session=1'')\<rparr>"
      negotiatorClosed]
  by (simp add: requestFor_def)

subsection \<open>What a redirect changes\<close>

text \<open>
  C10. On the redirect branch \<^verbatim>\<open>middleware\<close> changes the pathname of the request URL
  only, putting the resolved locale in front of it: protocol, host, query string and
  fragment of the target are those of the request.
\<close>

theorem middleware_redirect_frame:
  assumes "middleware lib request = Inr (RedirectTo u)"
  shows "protocol u = protocol (nextUrl request) \<and> host u = host (nextUrl request)
         \<and> search u = search (nextUrl request) \<and> hash u = hash (nextUrl request)
         \<and> (\<exists>locale. getLocale lib request = Inr locale
              \<and> u = (nextUrl request)\<lparr>pathname := ''/'' @ locale @ pathname (nextUrl request)\<rparr>)"
  using assms
  by (auto simp: middleware_def Let_def split: if_splits sum.splits)

theorem middleware_redirect_frame_witness:
  "middleware defaultNegotiation (requestFor ''/about'' (Some ''ar;q=0.9,en;q=0.5''))
     = Inr (RedirectTo \<lparr>protocol = ''https:'', host = ''example.com'', pathname = ''/en/about'',
                         search = ''?ref=home'', hash = ''#top''\<rparr>)
   \<and> host \<lparr>protocol = ''https:'', host = ''example.com'', pathname = ''/en/about'',
            search = ''?ref=home'', hash = ''#top''\<rparr>
     = host (nextUrl (requestFor ''/about'' (Some ''ar;q=0.9,en;q=0.5'')))
   \<and> search \<lparr>protocol = ''https:'', host = ''example.com'', pathname = ''/en/about'',
            search = ''?ref=home'', hash = ''#top''\<rparr>
     = search (nextUrl (requestFor ''/about'' (Some ''ar;q=0.9,en;q=0.5'')))"
  using middleware_redirect_frame [OF middleware_default_about] middleware_default_about
  by simp

end
